theory Spec2Isabelle
  imports Main
begin

section \<open>Values shared by the three classes of \<^verbatim>\<open>_date_select.py\<close>\<close>

text \<open>
  A Python \<^verbatim>\<open>str\<close> is a sequence of Unicode code points, and \<^verbatim>\<open>len\<close> counts code
  points (the chevron U+25BC is one of them), so a string is a list of code points.
  Literals of the source that are plain ASCII are written through \<open>ascii\<close>.
\<close>

type_synonym pystr = "nat list"

definition ascii :: "string \<Rightarrow> pystr" where
  "ascii s = map of_char s"

text \<open>
  Widgets are Python objects; a widget is named by its identity. \<^verbatim>\<open>Size\<close> and the
  offset are pairs of Python integers (width or x first), indexed by \<^verbatim>\<open>[0]\<close> and
  \<^verbatim>\<open>[1]\<close> in the source.
\<close>

type_synonym widget_id = nat

text \<open>A \<^verbatim>\<open>pendulum.DateTime\<close>. The source reads its \<^verbatim>\<open>day\<close> and formats it.\<close>

record DateTime =
  year :: int
  month :: int
  day :: int
  hour :: int
  minute :: int
  second :: int

text \<open>
  The exceptions that the statements of this file can raise: \<^verbatim>\<open>NoMatches\<close> of the
  framework's queries, \<^verbatim>\<open>AttributeError\<close> on an attribute of \<^verbatim>\<open>None\<close>, and
  \<^verbatim>\<open>ValueError\<close> of a format specification.
\<close>

datatype error = NoMatches | AttributeError | ValueError

text \<open>
  A \<^verbatim>\<open>DayLabel\<close> of the calendar grid, as far as this file reads it: its identity, its
  CSS classes and its \<^verbatim>\<open>day\<close> attribute.
\<close>

record DayLabel =
  label_id :: widget_id
  label_classes :: "string list"
  label_day :: int

text \<open>
  Modelled from the spec: the calendar widget \<^verbatim>\<open>DatePicker\<close> is "owned by a different
  component of the same repository" and is imported here, not defined. The record holds
  the two attributes that this file assigns, \<^verbatim>\<open>date\<close> and \<^verbatim>\<open>target\<close>.
\<close>

record DatePicker =
  picker_date :: "DateTime option"
  picker_target :: "widget_id option"

text \<open>
  \<^verbatim>\<open>DatePickerDialog\<close>: the attributes \<^verbatim>\<open>display\<close>, \<^verbatim>\<open>offset\<close>, \<^verbatim>\<open>target\<close> and
  \<^verbatim>\<open>date_picker\<close> (the class attribute is \<^verbatim>\<open>None\<close> until \<^verbatim>\<open>compose\<close> runs), and the
  part of its DOM subtree that the queries of this file read, as a handler's query
  finds it: the \<^verbatim>\<open>DayLabel\<close> descendants in DOM order, and the descendants matching
  \<^verbatim>\<open>*:focus-within\<close>.
\<close>

record DatePickerDialog =
  display :: bool
  offset :: "int \<times> int"
  target :: "widget_id option"
  date_picker :: "DatePicker option"
  day_labels :: "DayLabel list"
  focus_within :: "widget_id list"

text \<open>The class attribute \<^verbatim>\<open>size = Size(30, 17)\<close>, which shadows the widget's size.\<close>

definition DatePickerDialog_size :: "int \<times> int" where
  "DatePickerDialog_size = (30, 17)"

record DatePickerDialogScreen =
  screen_date :: "DateTime option"
  screen_dialog :: DatePickerDialog

record DateSelect =
  select_id :: widget_id
  widget_name :: "pystr option"
  widget_css_id :: "pystr option"
  widget_classes :: "pystr option"
  placeholder :: pystr
  format :: pystr
  date :: "DateTime option"
  dialog :: "DatePickerDialog option"
  content_width :: int

text \<open>The events the handlers read: a mouse event, a key, and \<^verbatim>\<open>DatePicker.Selected\<close>.\<close>

record MouseEvent =
  screen_x :: int
  screen_y :: int

record Key =
  key :: pystr

record Selected =
  selected_date :: "DateTime option"

text \<open>
  The framework is not part of the repository. A handler's calls into it are recorded
  in the order they are made: \<^verbatim>\<open>app.pop_screen()\<close>, \<^verbatim>\<open>app.push_screen(name)\<close>,
  \<^verbatim>\<open>app.install_screen(screen, name=...)\<close>, \<^verbatim>\<open>widget.focus()\<close>, and
  \<^verbatim>\<open>post_message\<close>, the framework's way for a widget to raise an event of its own.
\<close>

datatype call =
    PopScreen
  | PushScreen string
  | InstallScreen DatePickerDialogScreen string
  | Focus widget_id
  | PostMessage string

text \<open>What \<^verbatim>\<open>compose\<close> yields: the widgets mounted below the composing one.\<close>

datatype composed =
    Vertical "composed list"
  | DatePickerWidget DatePicker
  | DatePickerDialogWidget DatePickerDialog

section \<open>The framework's queries\<close>

text \<open>
  \<^verbatim>\<open>query("DayLabel.--day")\<close> selects the \<^verbatim>\<open>DayLabel\<close> descendants carrying a class, in
  DOM order. \<^verbatim>\<open>first()\<close> on an empty result and \<^verbatim>\<open>query_one\<close> without a match raise
  \<^verbatim>\<open>NoMatches\<close>; otherwise they return the first match.
\<close>

definition query_DayLabel :: "string \<Rightarrow> DatePickerDialog \<Rightarrow> DayLabel list" where
  "query_DayLabel cls d = filter (\<lambda>l. cls \<in> set (label_classes l)) (day_labels d)"

definition first :: "'a list \<Rightarrow> error + 'a" where
  "first xs = (case xs of [] \<Rightarrow> Inl NoMatches | x # _ \<Rightarrow> Inr x)"

definition query_one_DayLabel :: "string \<Rightarrow> DatePickerDialog \<Rightarrow> error + DayLabel" where
  "query_one_DayLabel cls d = first (query_DayLabel cls d)"

section \<open>\<^verbatim>\<open>DatePickerDialogScreen\<close>\<close>

definition DatePickerDialogScreen_init :: "DatePickerDialog \<Rightarrow> DatePickerDialogScreen" where
  "DatePickerDialogScreen_init date_picker_dialog =
     \<lparr>screen_date = None, screen_dialog = date_picker_dialog\<rparr>"

definition DatePickerDialogScreen_compose :: "DatePickerDialogScreen \<Rightarrow> composed list" where
  "DatePickerDialogScreen_compose s = [DatePickerDialogWidget (screen_dialog s)]"

text \<open>\<^verbatim>\<open>on_resize\<close>; the first argument is \<^verbatim>\<open>self.app.size\<close>. Python's \<^verbatim>\<open>//\<close> is \<open>div\<close>.\<close>

definition DatePickerDialogScreen_on_resize ::
  "int \<times> int \<Rightarrow> DatePickerDialogScreen \<Rightarrow> DatePickerDialogScreen" where
  "DatePickerDialogScreen_on_resize app_size s =
     s\<lparr>screen_dialog := (screen_dialog s)\<lparr>offset :=
          ((fst app_size - fst DatePickerDialog_size) div 2,
           (snd app_size - snd DatePickerDialog_size) div 2)\<rparr>\<rparr>"

text \<open>\<^verbatim>\<open>on_click\<close>: the screen as it is left, and the calls made.\<close>

definition DatePickerDialogScreen_on_click ::
  "DatePickerDialogScreen \<Rightarrow> MouseEvent \<Rightarrow> DatePickerDialogScreen \<times> call list" where
  "DatePickerDialogScreen_on_click s event =
     (let off = offset (screen_dialog s); sz = DatePickerDialog_size in
      if \<not> (fst off \<le> screen_x event \<and> screen_x event < fst off + fst sz)
         \<or> \<not> (snd off \<le> screen_y event \<and> screen_y event < snd off + snd sz)
      then (s, [PopScreen])
      else (s, []))"

text \<open>
  The loop of \<^verbatim>\<open>on_mount\<close> over the queried labels: the first label whose day is the
  date's day is focused, and the loop breaks.
\<close>

fun focus_day :: "DayLabel list \<Rightarrow> DateTime \<Rightarrow> call list" where
  "focus_day [] d = []"
| "focus_day (l # ls) d =
     (if label_day l = day d then [Focus (label_id l)] else focus_day ls d)"

text \<open>
  \<^verbatim>\<open>on_mount\<close>: the screen as it is left, the calls made, and the exception that
  leaves the handler, if any. The offset is assigned before anything can raise.

  The assignment \<^verbatim>\<open>self.dialog.date_picker.date = self.date\<close> writes a reactive attribute
  of the calendar: the value is stored, and the calendar reacts by labelling its grid for
  the month of the new date before the query of the next line runs. That reaction is
  code of the imported \<^verbatim>\<open>DatePicker\<close>, so it is the first argument here: from the picker
  as it was, the date assigned and the grid as it was, the grid as the query finds it.
\<close>

definition DatePickerDialogScreen_on_mount ::
  "(DatePicker \<Rightarrow> DateTime \<Rightarrow> DayLabel list \<Rightarrow> DayLabel list) \<Rightarrow> int \<times> int
     \<Rightarrow> DatePickerDialogScreen \<Rightarrow> DatePickerDialogScreen \<times> call list \<times> error option" where
  "DatePickerDialogScreen_on_mount picker_watch app_size s =
     (let s1 = s\<lparr>screen_dialog := (screen_dialog s)\<lparr>offset :=
                 ((fst app_size - fst DatePickerDialog_size) div 2,
                  (snd app_size - snd DatePickerDialog_size) div 2)\<rparr>\<rparr>;
          dlg = screen_dialog s1
      in case screen_date s1 of
           Some d \<Rightarrow>
             (case date_picker dlg of
                None \<Rightarrow> (s1, [], Some AttributeError)
              | Some p \<Rightarrow>
                  let dlg2 = dlg\<lparr>date_picker := Some (p\<lparr>picker_date := Some d\<rparr>),
                                 day_labels := picker_watch p d (day_labels dlg)\<rparr>
                  in (s1\<lparr>screen_dialog := dlg2\<rparr>, focus_day (query_DayLabel ''--day'' dlg2) d, None))
         | None \<Rightarrow>
             (case query_one_DayLabel ''--today'' dlg of
                Inr l \<Rightarrow> (s1, [Focus (label_id l)], None)
              | Inl NoMatches \<Rightarrow>
                  (case first (query_DayLabel ''--day'' dlg) of
                     Inr l \<Rightarrow> (s1, [Focus (label_id l)], None)
                   | Inl e \<Rightarrow> (s1, [], Some e))
              | Inl e \<Rightarrow> (s1, [], Some e)))"

section \<open>\<^verbatim>\<open>DatePickerDialog\<close>\<close>

text \<open>
  A new dialog: the class attributes \<^verbatim>\<open>date_picker = None\<close> and \<^verbatim>\<open>target = None\<close>, the
  framework's defaults for a new widget (displayed, no offset), and nothing mounted
  below it yet.
\<close>

definition DatePickerDialog_init :: DatePickerDialog where
  "DatePickerDialog_init =
     \<lparr>display = True, offset = (0, 0), target = None, date_picker = None,
      day_labels = [], focus_within = []\<rparr>"

text \<open>\<^verbatim>\<open>compose\<close>; the first argument is the widget that \<^verbatim>\<open>DatePicker()\<close> constructs.\<close>

definition DatePickerDialog_compose ::
  "DatePicker \<Rightarrow> DatePickerDialog \<Rightarrow> DatePickerDialog \<times> composed list" where
  "DatePickerDialog_compose new_picker d =
     (let p = new_picker\<lparr>picker_target := target d\<rparr>
      in (d\<lparr>date_picker := Some p\<rparr>, [Vertical [DatePickerWidget p]]))"

text \<open>\<^verbatim>\<open>on_descendant_blur\<close>; the event is not read.\<close>

definition DatePickerDialog_on_descendant_blur :: "DatePickerDialog \<Rightarrow> DatePickerDialog" where
  "DatePickerDialog_on_descendant_blur d =
     (if length (focus_within d) = 0 then d\<lparr>display := False\<rparr> else d)"

text \<open>\<^verbatim>\<open>on_date_picker_selected\<close> of the dialog: the dialog as it is left, and the calls made.\<close>

definition DatePickerDialog_on_date_picker_selected ::
  "DatePickerDialog \<Rightarrow> Selected \<Rightarrow> DatePickerDialog \<times> call list" where
  "DatePickerDialog_on_date_picker_selected d event =
     (let d1 = d\<lparr>display := False\<rparr>
      in (d1, [PopScreen] @ (case target d1 of None \<Rightarrow> [] | Some t \<Rightarrow> [Focus t])))"

section \<open>\<^verbatim>\<open>DateSelect\<close>\<close>

text \<open>
  \<^verbatim>\<open>__init__\<close>; the first argument is the identity of the new object, the others are the
  constructor's in its order (their defaults: \<^verbatim>\<open>None\<close>, \<^verbatim>\<open>"YYYY-MM-DD"\<close>, \<^verbatim>\<open>""\<close>,
  \<^verbatim>\<open>None\<close>, \<^verbatim>\<open>None\<close>, \<^verbatim>\<open>None\<close>). The reactive \<^verbatim>\<open>date\<close> starts as \<^verbatim>\<open>None\<close> and is
  assigned only when the argument is not \<^verbatim>\<open>None\<close>. Nothing is laid out yet, so the
  content width is 0.
\<close>

definition DateSelect_init ::
  "widget_id \<Rightarrow> DateTime option \<Rightarrow> pystr \<Rightarrow> pystr \<Rightarrow> pystr option \<Rightarrow> pystr option
     \<Rightarrow> pystr option \<Rightarrow> DateSelect" where
  "DateSelect_init self_id date_arg format_arg placeholder_arg name_arg id_arg classes_arg =
     (let s = \<lparr>select_id = self_id, widget_name = name_arg, widget_css_id = id_arg,
               widget_classes = classes_arg, placeholder = placeholder_arg,
               format = format_arg, date = None, dialog = None, content_width = 0\<rparr>
      in if date_arg \<noteq> None then s\<lparr>date := date_arg\<rparr> else s)"

text \<open>The property \<^verbatim>\<open>value\<close>.\<close>

definition DateSelect_value :: "DateSelect \<Rightarrow> DateTime option" where
  "DateSelect_value s = date s"

text \<open>
  The slice \<^verbatim>\<open>text[0:k]\<close>: a negative stop counts from the end.
\<close>

definition slice_to :: "pystr \<Rightarrow> int \<Rightarrow> pystr" where
  "slice_to t k = (if k < 0 then take (nat (int (length t) + k)) t else take (nat k) t)"

text \<open>
  \<^verbatim>\<open>f"{text:{w}}"\<close>: the format specification is the decimal numeral of \<^verbatim>\<open>w\<close>. A sign is
  refused for a string (\<^verbatim>\<open>ValueError\<close>); \<^verbatim>\<open>"0"\<close> is the zero flag with no width, which
  pads nothing (Python 3.10 and later); any other numeral is a width, and a string is
  padded on the right with spaces up to it.
\<close>

definition format_width :: "pystr \<Rightarrow> int \<Rightarrow> error + pystr" where
  "format_width t w =
     (if w < 0 then Inl ValueError
      else if w = 0 then Inr t
      else Inr (t @ replicate (nat w - length t) 32))"

text \<open>
  \<^verbatim>\<open>render\<close>; the first argument is \<^verbatim>\<open>pendulum\<close>'s \<^verbatim>\<open>DateTime.format\<close>. A
  \<^verbatim>\<open>DateTime\<close> is never falsy, so \<^verbatim>\<open>not self.date\<close> holds for \<^verbatim>\<open>None\<close> only.
\<close>

definition DateSelect_render ::
  "(DateTime \<Rightarrow> pystr \<Rightarrow> pystr) \<Rightarrow> DateSelect \<Rightarrow> error + pystr" where
  "DateSelect_render date_format s =
     (let chevron = [9660];
          width = content_width s;
          text_space = width - 2;
          text_space = (if text_space < 0 then 0 else text_space);
          txt = (case date s of None \<Rightarrow> placeholder s | Some d \<Rightarrow> date_format d (format s));
          txt = (if int (length txt) > text_space then slice_to txt text_space else txt)
      in case format_width txt text_space of
           Inl e \<Rightarrow> Inl e
         | Inr padded \<Rightarrow> Inr (padded @ [32] @ chevron))"

text \<open>\<^verbatim>\<open>on_mount\<close> of the select: the select as it is left, and the calls made.\<close>

definition DateSelect_on_mount :: "DateSelect \<Rightarrow> DateSelect \<times> call list" where
  "DateSelect_on_mount s =
     (let d = (case dialog s of
                 None \<Rightarrow> DatePickerDialog_init\<lparr>target := Some (select_id s)\<rparr>
               | Some d0 \<Rightarrow> d0)
      in (s\<lparr>dialog := Some d\<rparr>,
          [InstallScreen (DatePickerDialogScreen_init d) ''date_picker_dialog_screen'']))"

text \<open>
  \<^verbatim>\<open>_show_date_picker\<close>: the select as it is left, the calls made, and the exception
  that leaves the method, if any (\<^verbatim>\<open>self.dialog\<close> is \<^verbatim>\<open>None\<close> until \<^verbatim>\<open>on_mount\<close>).
\<close>

definition show_date_picker :: "DateSelect \<Rightarrow> DateSelect \<times> call list \<times> error option" where
  "show_date_picker s =
     (case dialog s of
        None \<Rightarrow> (s, [], Some AttributeError)
      | Some d \<Rightarrow>
          (s\<lparr>dialog := Some (d\<lparr>display := True\<rparr>)\<rparr>,
           [PushScreen ''date_picker_dialog_screen''], None))"

definition DateSelect_on_key :: "DateSelect \<Rightarrow> Key \<Rightarrow> DateSelect \<times> call list \<times> error option" where
  "DateSelect_on_key s event =
     (if key event = ascii ''enter'' then show_date_picker s else (s, [], None))"

definition DateSelect_on_click ::
  "DateSelect \<Rightarrow> MouseEvent \<Rightarrow> DateSelect \<times> call list \<times> error option" where
  "DateSelect_on_click s event = show_date_picker s"

definition DateSelect_on_blur :: "DateSelect \<Rightarrow> DateSelect" where
  "DateSelect_on_blur s = s"

text \<open>
  \<^verbatim>\<open>on_date_picker_selected\<close> of the select. The class defines no validator and no
  watcher for \<^verbatim>\<open>date\<close>, so the assignment to the reactive attribute stores the value.
\<close>

definition DateSelect_on_date_picker_selected :: "DateSelect \<Rightarrow> Selected \<Rightarrow> DateSelect" where
  "DateSelect_on_date_picker_selected s event = s\<lparr>date := selected_date event\<rparr>"

section \<open>The viewport, and the inputs the theorems are run on\<close>

text \<open>
  The viewport is the application's size. A dialog at an offset lies within it when
  neither component of the offset is negative and the offset plus the dialog's size
  does not exceed the application's size.
\<close>

definition within_viewport :: "int \<times> int \<Rightarrow> int \<times> int \<Rightarrow> bool" where
  "within_viewport app_size off =
     (0 \<le> fst off \<and> 0 \<le> snd off
      \<and> fst off + fst DatePickerDialog_size \<le> fst app_size
      \<and> snd off + snd DatePickerDialog_size \<le> snd app_size)"

text \<open>
  A dialog as it stands in an 80x24 terminal: a grid whose first label is the 30th of
  the month before (no \<^verbatim>\<open>--day\<close> class), then the 1st, the 2nd (today) and the 30th
  of the month shown; the select with identity 7 is its target.
\<close>

definition example_labels :: "DayLabel list" where
  "example_labels =
     [\<lparr>label_id = 10, label_classes = [], label_day = 30\<rparr>,
      \<lparr>label_id = 11, label_classes = [''--day''], label_day = 1\<rparr>,
      \<lparr>label_id = 12, label_classes = [''--day'', ''--today''], label_day = 2\<rparr>,
      \<lparr>label_id = 13, label_classes = [''--day''], label_day = 30\<rparr>]"

definition example_dialog :: DatePickerDialog where
  "example_dialog =
     \<lparr>display = True, offset = (25, 3), target = Some 7,
      date_picker = Some \<lparr>picker_date = None, picker_target = Some 7\<rparr>,
      day_labels = example_labels, focus_within = [12]\<rparr>"

definition example_screen :: DatePickerDialogScreen where
  "example_screen = DatePickerDialogScreen_init example_dialog"

definition example_date :: DateTime where
  "example_date = \<lparr>year = 2024, month = 6, day = 30, hour = 0, minute = 0, second = 0\<rparr>"

text \<open>
  A reaction of the calendar to run \<^verbatim>\<open>on_mount\<close> on: the labels keep their identities,
  and the first four are labelled as the last three days of the month ending on the day
  assigned, then the 1st of the month after (no \<^verbatim>\<open>--day\<close> class).
\<close>

definition example_watch :: "DatePicker \<Rightarrow> DateTime \<Rightarrow> DayLabel list \<Rightarrow> DayLabel list" where
  "example_watch p d ls =
     map (\<lambda>(l, c, n). l\<lparr>label_classes := c, label_day := n\<rparr>)
       (zip ls [([''--day''], day d - 2), ([''--day''], day d - 1), ([''--day''], day d),
                ([], 1)])"

text \<open>
  A formatter to run \<^verbatim>\<open>render\<close> on: it prints \<open>example_date\<close> for the format
  \<^verbatim>\<open>YYYY-MM-DD\<close> and echoes any other format.
\<close>

definition example_format :: "DateTime \<Rightarrow> pystr \<Rightarrow> pystr" where
  "example_format d f = (if f = ascii ''YYYY-MM-DD'' then ascii ''2024-06-30'' else f)"

text \<open>A select with identity 7, constructed with a placeholder only, after its \<^verbatim>\<open>on_mount\<close>.\<close>

definition example_select :: DateSelect where
  "example_select =
     fst (DateSelect_on_mount
       (DateSelect_init 7 None (ascii ''YYYY-MM-DD'') (ascii ''pick a date'') None None None))"

section \<open>Centering the dialog\<close>

lemma on_mount_offset:
  "offset (screen_dialog (fst (DatePickerDialogScreen_on_mount picker_watch (w, h) s))) =
     ((w - 30) div 2, (h - 17) div 2)"
  by (simp add: DatePickerDialogScreen_on_mount_def DatePickerDialog_size_def Let_def
      split: option.splits sum.splits error.splits)

text \<open>
  C1 (as amended). For every application size \<open>(w, h)\<close>, \<^verbatim>\<open>on_resize\<close> and \<^verbatim>\<open>on_mount\<close>
  leave the dialog's offset at \<open>((w - 30) div 2, (h - 17) div 2)\<close>, with floor
  division. That offset keeps the 30x17 dialog within the viewport exactly when the
  application is at least 30 wide and 17 high; nothing clamps it for a smaller one.
\<close>

theorem centering_offset:
  "offset (screen_dialog (DatePickerDialogScreen_on_resize (w, h) s)) =
     ((w - 30) div 2, (h - 17) div 2)
   \<and> offset (screen_dialog (fst (DatePickerDialogScreen_on_mount picker_watch (w, h) s))) =
     ((w - 30) div 2, (h - 17) div 2)
   \<and> (within_viewport (w, h) ((w - 30) div 2, (h - 17) div 2) \<longleftrightarrow> 30 \<le> w \<and> 17 \<le> h)"
proof -
  have r: "offset (screen_dialog (DatePickerDialogScreen_on_resize (w, h) s)) =
     ((w - 30) div 2, (h - 17) div 2)"
    by (simp add: DatePickerDialogScreen_on_resize_def DatePickerDialog_size_def)
  have v: "within_viewport (w, h) ((w - 30) div 2, (h - 17) div 2) \<longleftrightarrow> 30 \<le> w \<and> 17 \<le> h"
    unfolding within_viewport_def DatePickerDialog_size_def by (simp; arith)
  from r on_mount_offset v show ?thesis by blast
qed

theorem centering_offset_witness:
  "offset (screen_dialog (DatePickerDialogScreen_on_resize (80, 24) example_screen)) = (25, 3)
   \<and> offset (screen_dialog
        (fst (DatePickerDialogScreen_on_mount example_watch (80, 24) example_screen))) = (25, 3)
   \<and> within_viewport (80, 24) (25, 3)"
  using centering_offset [of 80 24 example_screen example_watch] by simp

text \<open>
  C1 as the claim states it fails in a 20x10 terminal: both handlers leave the offset
  at \<open>(-5, -4)\<close>, outside the viewport.
\<close>

theorem centering_offset_counterexample:
  "offset (screen_dialog (DatePickerDialogScreen_on_resize (20, 10) example_screen)) = (- 5, - 4)
   \<and> offset (screen_dialog
        (fst (DatePickerDialogScreen_on_mount example_watch (20, 10) example_screen))) = (- 5, - 4)
   \<and> \<not> within_viewport (20, 10) (- 5, - 4)"
  by (simp add: DatePickerDialogScreen_on_resize_def on_mount_offset DatePickerDialog_size_def
      within_viewport_def)

section \<open>Clicks on the modal screen\<close>

text \<open>
  C2. With the dialog's offset \<open>(ox, oy)\<close> and a click at screen coordinates
  \<open>(x, y)\<close>, \<^verbatim>\<open>on_click\<close> calls \<^verbatim>\<open>pop_screen\<close> if and only if the click is outside the
  half-open rectangle \<open>ox \<le> x < ox + 30\<close>, \<open>oy \<le> y < oy + 17\<close>; outside, that is its
  one call, and inside it makes no call and changes nothing.
\<close>

theorem click_outside_pops:
  "(let ox = fst (offset (screen_dialog s)); oy = snd (offset (screen_dialog s));
        x = screen_x ev; y = screen_y ev;
        inside = (ox \<le> x \<and> x < ox + 30 \<and> oy \<le> y \<and> y < oy + 17)
    in (PopScreen \<in> set (snd (DatePickerDialogScreen_on_click s ev)) \<longleftrightarrow> \<not> inside)
       \<and> (\<not> inside \<longrightarrow> DatePickerDialogScreen_on_click s ev = (s, [PopScreen]))
       \<and> (inside \<longrightarrow> DatePickerDialogScreen_on_click s ev = (s, [])))"
  by (auto simp add: DatePickerDialogScreen_on_click_def DatePickerDialog_size_def Let_def)

theorem click_outside_pops_witness:
  "DatePickerDialogScreen_on_click example_screen \<lparr>screen_x = 25, screen_y = 19\<rparr>
     = (example_screen, [])
   \<and> DatePickerDialogScreen_on_click example_screen \<lparr>screen_x = 55, screen_y = 19\<rparr>
     = (example_screen, [PopScreen])
   \<and> DatePickerDialogScreen_on_click example_screen \<lparr>screen_x = 25, screen_y = 20\<rparr>
     = (example_screen, [PopScreen])
   \<and> DatePickerDialogScreen_on_click example_screen \<lparr>screen_x = 24, screen_y = 3\<rparr>
     = (example_screen, [PopScreen])"
  using click_outside_pops [of example_screen "\<lparr>screen_x = 25, screen_y = 19\<rparr>"]
    click_outside_pops [of example_screen "\<lparr>screen_x = 55, screen_y = 19\<rparr>"]
    click_outside_pops [of example_screen "\<lparr>screen_x = 25, screen_y = 20\<rparr>"]
    click_outside_pops [of example_screen "\<lparr>screen_x = 24, screen_y = 3\<rparr>"]
  by (simp add: example_screen_def example_dialog_def DatePickerDialogScreen_init_def)

section \<open>The initial focus\<close>

lemma first_filter_find:
  "first (filter P xs) = (case find P xs of None \<Rightarrow> Inl NoMatches | Some x \<Rightarrow> Inr x)"
  by (induction xs) (simp_all add: first_def)

lemma focus_day_filter_find:
  "focus_day (filter P ls) d =
     (case find (\<lambda>l. P l \<and> label_day l = day d) ls of
        None \<Rightarrow> [] | Some l \<Rightarrow> [Focus (label_id l)])"
  by (induction ls) simp_all

lemma find_none_iff: "find P xs = None \<longleftrightarrow> (\<forall>x \<in> set xs. \<not> P x)"
  by (induction xs) auto

lemma find_some_holds: "find P xs = Some x \<Longrightarrow> x \<in> set xs \<and> P x"
  by (induction xs) (auto split: if_splits)

text \<open>
  C3. Let \<^verbatim>\<open>on_mount\<close> run with the stored date \<^verbatim>\<open>None\<close> on a dialog whose calendar is
  mounted, so that at least one \<^verbatim>\<open>DayLabel\<close> carries \<^verbatim>\<open>--day\<close>. Then no exception leaves
  \<^verbatim>\<open>on_mount\<close>, in particular not \<^verbatim>\<open>NoMatches\<close>, and only the offset of the dialog
  changes. When a \<^verbatim>\<open>DayLabel\<close> carries \<^verbatim>\<open>--today\<close>, the one call is the focus of a label
  carrying \<^verbatim>\<open>--today\<close>; when none does, the lookup's \<^verbatim>\<open>NoMatches\<close> is caught and the one
  call is the focus of the first \<^verbatim>\<open>DayLabel\<close> carrying \<^verbatim>\<open>--day\<close>.
\<close>

theorem on_mount_without_date:
  assumes "screen_date s = None"
    and "\<exists>l \<in> set (day_labels (screen_dialog s)). ''--day'' \<in> set (label_classes l)"
  shows "snd (snd (DatePickerDialogScreen_on_mount picker_watch (w, h) s)) = None
   \<and> fst (DatePickerDialogScreen_on_mount picker_watch (w, h) s) =
       s\<lparr>screen_dialog := (screen_dialog s)\<lparr>offset := ((w - 30) div 2, (h - 17) div 2)\<rparr>\<rparr>
   \<and> ((\<exists>l \<in> set (day_labels (screen_dialog s)). ''--today'' \<in> set (label_classes l)) \<longrightarrow>
        (\<exists>t \<in> set (day_labels (screen_dialog s)).
           ''--today'' \<in> set (label_classes t)
           \<and> fst (snd (DatePickerDialogScreen_on_mount picker_watch (w, h) s)) =
               [Focus (label_id t)]))
   \<and> ((\<forall>l \<in> set (day_labels (screen_dialog s)). ''--today'' \<notin> set (label_classes l)) \<longrightarrow>
        (\<exists>x. find (\<lambda>l. ''--day'' \<in> set (label_classes l)) (day_labels (screen_dialog s)) = Some x
           \<and> fst (snd (DatePickerDialogScreen_on_mount picker_watch (w, h) s)) =
               [Focus (label_id x)]))"
proof -
  define labels where "labels = day_labels (screen_dialog s)"
  define today where "today = find (\<lambda>l. ''--today'' \<in> set (label_classes l)) labels"
  define a_day where "a_day = find (\<lambda>l. ''--day'' \<in> set (label_classes l)) labels"
  have run: "DatePickerDialogScreen_on_mount picker_watch (w, h) s =
     (s\<lparr>screen_dialog := (screen_dialog s)\<lparr>offset := ((w - 30) div 2, (h - 17) div 2)\<rparr>\<rparr>,
      case today of
        Some t \<Rightarrow> ([Focus (label_id t)], None)
      | None \<Rightarrow>
          (case a_day of
             Some x \<Rightarrow> ([Focus (label_id x)], None)
           | None \<Rightarrow> ([], Some NoMatches)))"
    using assms(1)
    by (simp add: DatePickerDialogScreen_on_mount_def DatePickerDialog_size_def Let_def
        query_one_DayLabel_def query_DayLabel_def first_filter_find today_def a_day_def
        labels_def split: option.splits)
  from assms(2) obtain x where x: "a_day = Some x"
    unfolding a_day_def labels_def by (cases "find (\<lambda>l. ''--day'' \<in> set (label_classes l))
      (day_labels (screen_dialog s))") (auto simp add: find_none_iff)
  show ?thesis
  proof (cases today)
    case None
    then have "\<forall>l \<in> set labels. ''--today'' \<notin> set (label_classes l)"
      unfolding today_def by (simp add: find_none_iff)
    with None x run show ?thesis
      unfolding labels_def a_day_def by auto
  next
    case (Some t)
    then have "t \<in> set labels \<and> ''--today'' \<in> set (label_classes t)"
      unfolding today_def by (rule find_some_holds)
    with Some run show ?thesis
      unfolding labels_def by auto
  qed
qed

theorem on_mount_without_date_witness:
  "screen_date example_screen = None
   \<and> DatePickerDialogScreen_on_mount example_watch (80, 24) example_screen =
       (example_screen, [Focus 12], None)
   \<and> DatePickerDialogScreen_on_mount example_watch (80, 24)
        (example_screen\<lparr>screen_dialog := example_dialog\<lparr>day_labels := take 2 example_labels\<rparr>\<rparr>) =
     (example_screen\<lparr>screen_dialog := example_dialog\<lparr>day_labels := take 2 example_labels\<rparr>\<rparr>,
      [Focus 11], None)"
  using on_mount_without_date [of example_screen example_watch 80 24]
    on_mount_without_date
      [of "example_screen\<lparr>screen_dialog := example_dialog\<lparr>day_labels := take 2 example_labels\<rparr>\<rparr>"
        example_watch 80 24]
  by (simp add: example_screen_def example_dialog_def example_labels_def
      DatePickerDialogScreen_init_def prod_eq_iff)

text \<open>
  C4. When \<^verbatim>\<open>on_mount\<close> runs with a stored date that is not \<^verbatim>\<open>None\<close>, it assigns that
  date to the embedded date picker, and in the grid as the calendar labels it for that
  date it focuses the first \<^verbatim>\<open>DayLabel\<close>, in query order, that carries \<^verbatim>\<open>--day\<close> and
  whose day is the date's day; that is its only call, no later label is focused, and
  with no such label nothing is focused. This holds whatever the calendar's labelling.
\<close>

theorem on_mount_with_date:
  assumes "screen_date s = Some d" and "date_picker (screen_dialog s) = Some p"
  shows "DatePickerDialogScreen_on_mount picker_watch (w, h) s =
     (s\<lparr>screen_dialog := (screen_dialog s)
          \<lparr>offset := ((w - 30) div 2, (h - 17) div 2),
           date_picker := Some (p\<lparr>picker_date := Some d\<rparr>),
           day_labels := picker_watch p d (day_labels (screen_dialog s))\<rparr>\<rparr>,
      case find (\<lambda>l. ''--day'' \<in> set (label_classes l) \<and> label_day l = day d)
             (picker_watch p d (day_labels (screen_dialog s))) of
        None \<Rightarrow> []
      | Some l \<Rightarrow> [Focus (label_id l)],
      None)"
  using assms
  by (simp add: DatePickerDialogScreen_on_mount_def DatePickerDialog_size_def Let_def
      query_DayLabel_def focus_day_filter_find)

text \<open>
  On the example the grid at entry has its 30th under the label 13, and the calendar
  moves the 30th to the label 12 for the date assigned: the label 12 is focused. With a
  calendar that leaves the grid as it is, the label 13 is.
\<close>

theorem on_mount_with_date_witness:
  "screen_date (example_screen\<lparr>screen_date := Some example_date\<rparr>) = Some example_date
   \<and> date_picker (screen_dialog (example_screen\<lparr>screen_date := Some example_date\<rparr>)) =
       Some \<lparr>picker_date = None, picker_target = Some 7\<rparr>
   \<and> fst (snd (DatePickerDialogScreen_on_mount example_watch (80, 24)
        (example_screen\<lparr>screen_date := Some example_date\<rparr>))) = [Focus 12]
   \<and> map label_day (day_labels (screen_dialog (fst
        (DatePickerDialogScreen_on_mount example_watch (80, 24)
           (example_screen\<lparr>screen_date := Some example_date\<rparr>))))) = [28, 29, 30, 1]
   \<and> date_picker (screen_dialog (fst
        (DatePickerDialogScreen_on_mount example_watch (80, 24)
           (example_screen\<lparr>screen_date := Some example_date\<rparr>)))) =
       Some \<lparr>picker_date = Some example_date, picker_target = Some 7\<rparr>
   \<and> DatePickerDialogScreen_on_mount (\<lambda>p d ls. ls) (80, 24)
        (example_screen\<lparr>screen_date := Some example_date\<rparr>) =
     (example_screen\<lparr>screen_date := Some example_date,
        screen_dialog := example_dialog
          \<lparr>date_picker := Some \<lparr>picker_date = Some example_date, picker_target = Some 7\<rparr>\<rparr>\<rparr>,
      [Focus 13], None)"
  using on_mount_with_date [of "example_screen\<lparr>screen_date := Some example_date\<rparr>" example_date
      "\<lparr>picker_date = None, picker_target = Some 7\<rparr>" example_watch 80 24]
    on_mount_with_date [of "example_screen\<lparr>screen_date := Some example_date\<rparr>" example_date
      "\<lparr>picker_date = None, picker_target = Some 7\<rparr>" "\<lambda>p d ls. ls" 80 24]
  by (simp add: example_screen_def example_dialog_def example_labels_def example_date_def
      example_watch_def DatePickerDialogScreen_init_def)

section \<open>Rendering the select\<close>

text \<open>
  C5. \<^verbatim>\<open>render\<close> raises nothing and returns the formatted date (the placeholder when
  the date is \<^verbatim>\<open>None\<close>), cut to the content width minus two characters and padded
  on the right with spaces to that width, then one space and the chevron U+25BC. When
  the content width is at least 2, the length of the result is the content width.
\<close>

theorem render_shape:
  "DateSelect_render date_format s =
     Inr (let n = nat (content_width s - 2);
              txt = (case date s of None \<Rightarrow> placeholder s | Some d \<Rightarrow> date_format d (format s));
              cut = take n txt
          in cut @ replicate (n - length cut) 32 @ [32, 9660])
   \<and> (2 \<le> content_width s \<longrightarrow>
        (\<exists>r. DateSelect_render date_format s = Inr r \<and> int (length r) = content_width s))"
  by (auto simp add: DateSelect_render_def format_width_def slice_to_def Let_def
      split: option.splits)

theorem render_shape_witness:
  "DateSelect_render example_format (example_select\<lparr>content_width := 14\<rparr>) =
     Inr (ascii ''pick a date  '' @ [9660])
   \<and> DateSelect_render example_format
        (example_select\<lparr>content_width := 8, date := Some example_date\<rparr>) =
     Inr (ascii ''2024-0 '' @ [9660])
   \<and> DateSelect_render example_format (example_select\<lparr>content_width := 1\<rparr>) = Inr [32, 9660]"
  using render_shape [of example_format "example_select\<lparr>content_width := 14\<rparr>"]
    render_shape [of example_format "example_select\<lparr>content_width := 8, date := Some example_date\<rparr>"]
    render_shape [of example_format "example_select\<lparr>content_width := 1\<rparr>"]
  by (simp add: example_select_def DateSelect_on_mount_def DateSelect_init_def
      example_format_def ascii_def Let_def)

section \<open>Closing and opening the picker\<close>

text \<open>
  C6. On \<^verbatim>\<open>DatePicker.Selected\<close> the dialog sets its display flag to \<^verbatim>\<open>False\<close> and
  changes nothing else of itself, calls \<^verbatim>\<open>pop_screen\<close>, and then focuses its target
  when it has one; with the target \<^verbatim>\<open>None\<close> it makes no focus call.
\<close>

theorem dialog_selected:
  "fst (DatePickerDialog_on_date_picker_selected d ev) = d\<lparr>display := False\<rparr>
   \<and> snd (DatePickerDialog_on_date_picker_selected d ev) =
       (case target d of None \<Rightarrow> [PopScreen] | Some t \<Rightarrow> [PopScreen, Focus t])
   \<and> (target d = None \<longrightarrow>
        (\<forall>t. Focus t \<notin> set (snd (DatePickerDialog_on_date_picker_selected d ev))))"
  by (simp add: DatePickerDialog_on_date_picker_selected_def Let_def split: option.splits)

theorem dialog_selected_witness:
  "DatePickerDialog_on_date_picker_selected example_dialog \<lparr>selected_date = Some example_date\<rparr> =
     (example_dialog\<lparr>display := False\<rparr>, [PopScreen, Focus 7])
   \<and> DatePickerDialog_on_date_picker_selected DatePickerDialog_init
        \<lparr>selected_date = Some example_date\<rparr> =
     (DatePickerDialog_init\<lparr>display := False\<rparr>, [PopScreen])"
  using dialog_selected [of example_dialog "\<lparr>selected_date = Some example_date\<rparr>"]
    dialog_selected [of DatePickerDialog_init "\<lparr>selected_date = Some example_date\<rparr>"]
  by (simp add: example_dialog_def DatePickerDialog_init_def prod_eq_iff)

text \<open>
  C7. A mounted select (its dialog exists) that receives the key \<^verbatim>\<open>enter\<close>, or a
  mouse click, sets the dialog's display flag to \<^verbatim>\<open>True\<close> and pushes the screen named
  \<^verbatim>\<open>date_picker_dialog_screen\<close>, and raises nothing; on any other key it makes no call
  and changes nothing.
\<close>

theorem select_opens_picker:
  assumes "dialog s = Some d"
  shows "(key kev = ascii ''enter'' \<longrightarrow>
           DateSelect_on_key s kev =
             (s\<lparr>dialog := Some (d\<lparr>display := True\<rparr>)\<rparr>,
              [PushScreen ''date_picker_dialog_screen''], None))
       \<and> DateSelect_on_click s mev =
             (s\<lparr>dialog := Some (d\<lparr>display := True\<rparr>)\<rparr>,
              [PushScreen ''date_picker_dialog_screen''], None)
       \<and> (key kev \<noteq> ascii ''enter'' \<longrightarrow> DateSelect_on_key s kev = (s, [], None))"
  using assms
  by (simp add: DateSelect_on_key_def DateSelect_on_click_def show_date_picker_def)

theorem select_opens_picker_witness:
  "dialog example_select = Some (DatePickerDialog_init\<lparr>target := Some 7\<rparr>)
   \<and> DateSelect_on_key
        (example_select\<lparr>dialog := Some (DatePickerDialog_init\<lparr>target := Some 7, display := False\<rparr>)\<rparr>)
        \<lparr>key = ascii ''enter''\<rparr> =
       (example_select, [PushScreen ''date_picker_dialog_screen''], None)
   \<and> DateSelect_on_click example_select \<lparr>screen_x = 3, screen_y = 1\<rparr> =
       (example_select, [PushScreen ''date_picker_dialog_screen''], None)
   \<and> DateSelect_on_key example_select \<lparr>key = ascii ''tab''\<rparr> = (example_select, [], None)"
  using select_opens_picker
      [of "example_select\<lparr>dialog := Some (DatePickerDialog_init\<lparr>target := Some 7, display := False\<rparr>)\<rparr>"
        "DatePickerDialog_init\<lparr>target := Some 7, display := False\<rparr>"
        "\<lparr>key = ascii ''enter''\<rparr>" "\<lparr>screen_x = 3, screen_y = 1\<rparr>"]
    select_opens_picker [of example_select "DatePickerDialog_init\<lparr>target := Some 7\<rparr>"
        "\<lparr>key = ascii ''tab''\<rparr>" "\<lparr>screen_x = 3, screen_y = 1\<rparr>"]
  by (simp add: example_select_def DateSelect_on_mount_def DateSelect_init_def
      DatePickerDialog_init_def ascii_def Let_def)

text \<open>
  C8 (as amended). Opening the picker is a direct call, not an event of the select's
  own: \<^verbatim>\<open>on_mount\<close> of the select installs the modal screen around its dialog under the
  name \<^verbatim>\<open>date_picker_dialog_screen\<close>, and \<^verbatim>\<open>_show_date_picker\<close> sets the dialog's
  display flag and pushes the screen of that name, posting no message. The modal screen
  composes the dialog, and the dialog composes the calendar widget, inside a
  \<^verbatim>\<open>Vertical\<close>, with the dialog's target.
\<close>

theorem opening_is_direct:
  "(\<exists>d. dialog (fst (DateSelect_on_mount s)) = Some d
        \<and> snd (DateSelect_on_mount s) =
            [InstallScreen (DatePickerDialogScreen_init d) ''date_picker_dialog_screen'']
        \<and> show_date_picker (fst (DateSelect_on_mount s)) =
            ((fst (DateSelect_on_mount s))\<lparr>dialog := Some (d\<lparr>display := True\<rparr>)\<rparr>,
             [PushScreen ''date_picker_dialog_screen''], None))
   \<and> (\<forall>m. PostMessage m \<notin> set (fst (snd (show_date_picker s))))
   \<and> DatePickerDialogScreen_compose (DatePickerDialogScreen_init dlg) =
        [DatePickerDialogWidget dlg]
   \<and> DatePickerDialog_compose new_picker dlg =
        (dlg\<lparr>date_picker := Some (new_picker\<lparr>picker_target := target dlg\<rparr>)\<rparr>,
         [Vertical [DatePickerWidget (new_picker\<lparr>picker_target := target dlg\<rparr>)]])"
  by (simp add: DateSelect_on_mount_def show_date_picker_def DatePickerDialogScreen_compose_def
      DatePickerDialogScreen_init_def DatePickerDialog_compose_def Let_def
      split: option.splits)

theorem opening_is_direct_witness:
  "snd (DateSelect_on_mount
          (DateSelect_init 7 None (ascii ''YYYY-MM-DD'') (ascii ''pick a date'') None None None)) =
     [InstallScreen (DatePickerDialogScreen_init (DatePickerDialog_init\<lparr>target := Some 7\<rparr>))
        ''date_picker_dialog_screen'']
   \<and> show_date_picker example_select =
       (example_select, [PushScreen ''date_picker_dialog_screen''], None)
   \<and> DatePickerDialogScreen_compose (DatePickerDialogScreen_init example_dialog) =
       [DatePickerDialogWidget example_dialog]
   \<and> snd (DatePickerDialog_compose \<lparr>picker_date = Some example_date, picker_target = None\<rparr>
            example_dialog) =
       [Vertical [DatePickerWidget \<lparr>picker_date = Some example_date, picker_target = Some 7\<rparr>]]"
  using opening_is_direct
      [of "DateSelect_init 7 None (ascii ''YYYY-MM-DD'') (ascii ''pick a date'') None None None"
        example_dialog "\<lparr>picker_date = Some example_date, picker_target = None\<rparr>"]
  by (simp add: example_select_def example_dialog_def DateSelect_init_def DateSelect_on_mount_def
      DatePickerDialog_init_def Let_def)

text \<open>
  C8 as the claim states it fails on the mounted select: on \<^verbatim>\<open>enter\<close> and on a click
  its one call is \<^verbatim>\<open>push_screen\<close>, and it raises no event for a host to catch.
\<close>

theorem opening_is_direct_counterexample:
  "fst (snd (DateSelect_on_key example_select \<lparr>key = ascii ''enter''\<rparr>)) =
     [PushScreen ''date_picker_dialog_screen'']
   \<and> fst (snd (DateSelect_on_click example_select \<lparr>screen_x = 3, screen_y = 1\<rparr>)) =
     [PushScreen ''date_picker_dialog_screen'']
   \<and> \<not> (\<exists>m. PostMessage m \<in>
          set (fst (snd (DateSelect_on_key example_select \<lparr>key = ascii ''enter''\<rparr>))))
   \<and> \<not> (\<exists>m. PostMessage m \<in>
          set (fst (snd (DateSelect_on_click example_select \<lparr>screen_x = 3, screen_y = 1\<rparr>))))"
  by (simp add: example_select_def DateSelect_on_key_def DateSelect_on_click_def
      show_date_picker_def DateSelect_on_mount_def DateSelect_init_def Let_def)

section \<open>The value of the select, and the blur of the dialog\<close>

text \<open>
  C9. \<^verbatim>\<open>value\<close> is the reactive \<^verbatim>\<open>date\<close>: \<^verbatim>\<open>None\<close> for a select constructed without a
  date, the constructor's date when one is given, and the event's date after
  \<^verbatim>\<open>on_date_picker_selected\<close> of the select.
\<close>

theorem value_is_date:
  "DateSelect_value s = date s
   \<and> DateSelect_value (DateSelect_init i None f p n c k) = None
   \<and> DateSelect_value (DateSelect_init i (Some d) f p n c k) = Some d
   \<and> DateSelect_value (DateSelect_on_date_picker_selected s ev) = selected_date ev"
  by (simp add: DateSelect_value_def DateSelect_init_def DateSelect_on_date_picker_selected_def)

theorem value_is_date_witness:
  "DateSelect_value example_select = None
   \<and> DateSelect_value
        (DateSelect_init 7 (Some example_date) (ascii ''YYYY-MM-DD'') [] None None None)
       = Some example_date
   \<and> DateSelect_value (DateSelect_on_date_picker_selected example_select
        \<lparr>selected_date = Some example_date\<rparr>) = Some example_date"
  using value_is_date [of example_select 7 "ascii ''YYYY-MM-DD''" "[]" None None None example_date
      "\<lparr>selected_date = Some example_date\<rparr>"]
  by (simp add: example_select_def DateSelect_on_mount_def DateSelect_init_def Let_def)

text \<open>
  C10. When \<^verbatim>\<open>on_descendant_blur\<close> runs and no descendant matches \<^verbatim>\<open>*:focus-within\<close>,
  the dialog's display flag becomes \<^verbatim>\<open>False\<close> and nothing else of the dialog changes;
  when a descendant matches, the dialog is left as it was.
\<close>

theorem descendant_blur:
  "(focus_within d = [] \<longrightarrow> DatePickerDialog_on_descendant_blur d = d\<lparr>display := False\<rparr>)
   \<and> (focus_within d \<noteq> [] \<longrightarrow> DatePickerDialog_on_descendant_blur d = d)"
  by (simp add: DatePickerDialog_on_descendant_blur_def)

theorem descendant_blur_witness:
  "DatePickerDialog_on_descendant_blur example_dialog = example_dialog
   \<and> DatePickerDialog_on_descendant_blur (example_dialog\<lparr>focus_within := []\<rparr>) =
       example_dialog\<lparr>focus_within := [], display := False\<rparr>"
  using descendant_blur [of example_dialog] descendant_blur [of "example_dialog\<lparr>focus_within := []\<rparr>"]
  by (simp add: example_dialog_def)

end
